theory Spec2Isabelle
  imports Main
begin

section \<open>JavaScript values\<close>

text \<open>
  The hook \<^verbatim>\<open>useInputValidation<V, E>\<close> of \<^verbatim>\<open>src/index.ts\<close> is generic in the value type
  \<^verbatim>\<open>V\<close> and the hint type \<^verbatim>\<open>E\<close>, and neither is constrained: what the hook and the
  framework do with a value is decided at run time, by \<^verbatim>\<open>typeof result !== "boolean"\<close>, by
  \<^verbatim>\<open>!result\<close>, by \<^verbatim>\<open>state ?? value\<close>, and by the framework's test whether a value is a
  function. The model works on one universe of JavaScript values. A function value is a
  reference \<open>Fun k\<close> to the function object number \<open>k\<close>.
\<close>

datatype jsval = Undefined | Null | Bool bool | Num int | Str string | Fun nat

text \<open>
  The function objects of the program: \<open>F k x\<close> is what a call of function \<open>k\<close> on the
  argument \<open>x\<close> returns (a call without an argument passes \<^verbatim>\<open>undefined\<close>). The table is a
  parameter of the model, so a statement for every table is a statement for every
  function. Functions are taken to return and to have no effect of their own.
\<close>

type_synonym funs = "nat \<Rightarrow> jsval \<Rightarrow> jsval"

text \<open>The \<^verbatim>\<open>typeof\<close> operator on these values.\<close>

fun typeof :: "jsval \<Rightarrow> string" where
  "typeof Undefined = ''undefined''"
| "typeof Null = ''object''"
| "typeof (Bool b) = ''boolean''"
| "typeof (Num n) = ''number''"
| "typeof (Str s) = ''string''"
| "typeof (Fun k) = ''function''"

text \<open>JavaScript's conversion to a boolean, which \<^verbatim>\<open>!result\<close> negates.\<close>

fun truthy :: "jsval \<Rightarrow> bool" where
  "truthy Undefined = False"
| "truthy Null = False"
| "truthy (Bool b) = b"
| "truthy (Num n) = (n \<noteq> 0)"
| "truthy (Str s) = (s \<noteq> [])"
| "truthy (Fun k) = True"

text \<open>The nullish coalescing operator \<^verbatim>\<open>a ?? b\<close>: \<open>b\<close> when \<open>a\<close> is null or undefined.\<close>

fun nullish_coalesce :: "jsval \<Rightarrow> jsval \<Rightarrow> jsval" where
  "nullish_coalesce Undefined b = b"
| "nullish_coalesce Null b = b"
| "nullish_coalesce a b = a"

text \<open>
  An optional parameter (\<^verbatim>\<open>state?: V\<close>): the call site passes an argument or none, and
  the body reads \<^verbatim>\<open>undefined\<close> when none was passed.
\<close>

fun parameter :: "jsval option \<Rightarrow> jsval" where
  "parameter None = Undefined"
| "parameter (Some a) = a"

section \<open>The state cell and the host framework's state primitive\<close>

text \<open>
  The three \<^verbatim>\<open>useState\<close> slots of the hook (\<^verbatim>\<open>value\<close>, \<^verbatim>\<open>error\<close>, \<^verbatim>\<open>savePoint\<close>), as one
  rendered snapshot. The first field is the source's \<^verbatim>\<open>value\<close>.
\<close>

record cell =
  value_cur :: jsval
  error :: jsval
  savePoint :: jsval

text \<open>The three arguments of the hook.\<close>

record hook =
  initialValue :: jsval
  staticHint :: jsval
  validator :: "jsval \<Rightarrow> jsval"

text \<open>
  What the hook does to the outside: it calls the validator, it calls one of the three
  state setters with some value, or (through \<^verbatim>\<open>useState\<close>) it has the initial value
  called. A setter call does not change the snapshot the caller closes over; it queues
  an update that the framework applies afterwards. Every setter receives the value as
  the source passes it, function or not.
\<close>

datatype effect =
  Validator_call jsval
| Initialiser_call jsval
| Set_value jsval
| Set_error jsval
| Set_savePoint jsval

text \<open>
  Modelled from the spec: \<^verbatim>\<open>useState\<close> is imported from \<^verbatim>\<open>react\<close> and is not part of the
  repository. By section 6 of the specification it stores a value across renders: a
  slot holds the initial value on the first render and the stored one afterwards. The
  specification does not say what happens to an initial value that is a function; the
  library calls it, without an argument, and stores what it returns, and so does the
  model. The result comes with the calls made.
\<close>

fun useState :: "funs \<Rightarrow> jsval \<Rightarrow> jsval option \<Rightarrow> jsval \<times> effect list" where
  "useState F (Fun k) None = (F k Undefined, [Initialiser_call (Fun k)])"
| "useState F init None = (init, [])"
| "useState F init (Some s) = (s, [])"

text \<open>
  Modelled from the spec: what the setter of a slot does with its argument, which
  \<^verbatim>\<open>react\<close> decides. By section 4.1 of the specification a plain value replaces the
  slot's content, and a function is applied to the content the slot has at the time the
  update is applied. Every setter of \<^verbatim>\<open>useState\<close> does so, not only \<^verbatim>\<open>setValue\<close>.
\<close>

fun basicStateReducer :: "funs \<Rightarrow> jsval \<Rightarrow> jsval \<Rightarrow> jsval" where
  "basicStateReducer F state (Fun k) = F k state"
| "basicStateReducer F state action = action"

text \<open>
  Modelled from the spec: one queued effect, applied. A setter writes its own slot and
  no other; a call of the validator changes no slot (the validator is pure, section 3).
\<close>

fun apply_effect :: "funs \<Rightarrow> cell \<Rightarrow> effect \<Rightarrow> cell" where
  "apply_effect F c (Validator_call v) = c"
| "apply_effect F c (Initialiser_call v) = c"
| "apply_effect F c (Set_value a) = c\<lparr>value_cur := basicStateReducer F (value_cur c) a\<rparr>"
| "apply_effect F c (Set_error a) = c\<lparr>error := basicStateReducer F (error c) a\<rparr>"
| "apply_effect F c (Set_savePoint a) = c\<lparr>savePoint := basicStateReducer F (savePoint c) a\<rparr>"

text \<open>
  Modelled from the spec: the framework applies the queued updates after the event
  handler, in the order of the calls (section 5: updates are batched).
\<close>

definition flush :: "funs \<Rightarrow> cell \<Rightarrow> effect list \<Rightarrow> cell" where
  "flush F c es = foldl (apply_effect F) c es"

text \<open>The validator's call log, as a test double would record it.\<close>

fun validator_calls :: "effect list \<Rightarrow> jsval list" where
  "validator_calls [] = []"
| "validator_calls (Validator_call v # es) = v # validator_calls es"
| "validator_calls (e # es) = validator_calls es"

section \<open>The hook\<close>

text \<open>
  The body of \<^verbatim>\<open>useInputValidation\<close> for one render: it reads the three slots in the
  order of the source (the stored cell is \<open>None\<close> on the first render), builds the
  callbacks and returns. The body itself calls no setter and does not call the
  validator; the effects of a render are those of its three \<^verbatim>\<open>useState\<close> calls.
\<close>

definition useInputValidation :: "funs \<Rightarrow> hook \<Rightarrow> cell option \<Rightarrow> cell \<times> effect list" where
  "useInputValidation F h stored =
     (let (value, e1) = useState F (initialValue h) (map_option value_cur stored);
          (error, e2) = useState F Null (map_option cell.error stored);
          (savePoint, e3) = useState F (initialValue h) (map_option cell.savePoint stored)
      in (\<lparr>value_cur = value, error = error, savePoint = savePoint\<rparr>, e1 @ e2 @ e3))"

text \<open>\<^verbatim>\<open>setValue\<close> is the setter of the first slot, returned as it is.\<close>

definition setValue :: "jsval \<Rightarrow> effect list" where
  "setValue update = [Set_value update]"

text \<open>\<^verbatim>\<open>reset\<close>: \<^verbatim>\<open>setValue(savePoint); setError(null);\<close>\<close>

definition reset :: "cell \<Rightarrow> effect list" where
  "reset c = [Set_value (savePoint c), Set_error Null]"

text \<open>\<^verbatim>\<open>commit\<close>: \<^verbatim>\<open>setSavePoint(state ?? value);\<close>\<close>

definition commit :: "cell \<Rightarrow> jsval option \<Rightarrow> effect list" where
  "commit c state = [Set_savePoint (nullish_coalesce (parameter state) (value_cur c))]"

text \<open>
  \<^verbatim>\<open>validate\<close>: the result of the call and its effects. The validator is taken to return
  (the source does not catch what it throws).
\<close>

definition validate :: "hook \<Rightarrow> cell \<Rightarrow> bool \<times> effect list" where
  "validate h c =
     (let result = validator h (value_cur c) in
      if typeof result \<noteq> ''boolean'' then
        (False, [Validator_call (value_cur c), Set_error result])
      else if \<not> truthy result then
        (False, [Validator_call (value_cur c), Set_error (staticHint h)])
      else
        (True, [Validator_call (value_cur c), Set_error Null]))"

section \<open>Calling the hook's operations\<close>

datatype operation = SetValue jsval | Validate | Reset | Commit "jsval option"

text \<open>The effects of one call on the callbacks of the rendered snapshot \<open>c\<close>.\<close>

fun call :: "hook \<Rightarrow> cell \<Rightarrow> operation \<Rightarrow> effect list" where
  "call h c (SetValue update) = setValue update"
| "call h c Validate = snd (validate h c)"
| "call h c Reset = reset c"
| "call h c (Commit state) = commit c state"

text \<open>
  One event handler (one \<^verbatim>\<open>act\<close> of the tests): every call in it uses the callbacks of
  the same render, so all of them read the snapshot \<open>c\<close>; the queued updates are applied
  when the handler is done, and the next render shows the result.
\<close>

definition act :: "funs \<Rightarrow> hook \<Rightarrow> cell \<Rightarrow> operation list \<Rightarrow> cell" where
  "act F h c ops = flush F c (concat (map (call h c) ops))"

text \<open>A sequence of event handlers, each on the render the previous one led to.\<close>

definition run :: "funs \<Rightarrow> hook \<Rightarrow> cell \<Rightarrow> operation list list \<Rightarrow> cell" where
  "run F h c batches = foldl (act F h) c batches"

text \<open>The freshly constructed cell: the snapshot of the first render.\<close>

definition create :: "funs \<Rightarrow> hook \<Rightarrow> cell" where
  "create F h = fst (useInputValidation F h None)"

section \<open>Inputs of the examples\<close>

text \<open>
  The updater \<^verbatim>\<open>prev => prev + "X"\<close> of the specification's example, on string values
  (the example runs it on a string; other values are handed back unchanged).
\<close>

fun append_str :: "string \<Rightarrow> jsval \<Rightarrow> jsval" where
  "append_str x (Str s) = Str (s @ x)"
| "append_str x v = v"

text \<open>
  Three function objects for the examples: number 0 is \<^verbatim>\<open>prev => prev + "X"\<close>, number 1 is
  \<^verbatim>\<open>() => f0\<close> (it returns function 0), number 2 is \<^verbatim>\<open>() => "lazy"\<close>.
\<close>

definition example_functions :: funs where
  "example_functions k x =
     (if k = 0 then append_str ''X'' x
      else if k = 1 then Fun 0
      else if k = 2 then Str ''lazy''
      else Undefined)"

definition cell_of :: "jsval \<Rightarrow> jsval \<Rightarrow> jsval \<Rightarrow> cell" where
  "cell_of v e s = \<lparr>value_cur = v, error = e, savePoint = s\<rparr>"

text \<open>A hook whose validator returns \<open>r\<close> whatever the value, as the tests' validators do.\<close>

definition hook_of :: "jsval \<Rightarrow> jsval \<Rightarrow> jsval \<Rightarrow> hook" where
  "hook_of v0 hint r = \<lparr>initialValue = v0, staticHint = hint, validator = (\<lambda>v. r)\<rparr>"

section \<open>Basic facts\<close>

lemma flush_Nil: "flush F c [] = c"
  by (simp add: flush_def)

lemma flush_Cons: "flush F c (e # es) = flush F (apply_effect F c e) es"
  by (simp add: flush_def)

lemma flush_append: "flush F c (es @ fs) = flush F (flush F c es) fs"
  by (simp add: flush_def)

lemma act_single: "act F h c [x] = flush F c (call h c x)"
  by (simp add: act_def)

lemma act_append: "act F h c (xs @ ys) = flush F (act F h c xs) (concat (map (call h c) ys))"
  by (simp add: act_def flush_append)

lemma run_Nil: "run F h c [] = c"
  by (simp add: run_def)

lemma run_Cons: "run F h c (b # bs) = run F h (act F h c b) bs"
  by (simp add: run_def)

lemma run_append: "run F h c (bs @ cs) = run F h (run F h c bs) cs"
  by (simp add: run_def)

text \<open>A setter stores a value that is not a function as it is.\<close>

lemma basicStateReducer_plain: "\<forall>k. a \<noteq> Fun k \<Longrightarrow> basicStateReducer F state a = a"
  by (cases a) simp_all

text \<open>validate calls the validator once, on the value of the snapshot.\<close>

lemma validator_calls_validate: "validator_calls (call h c Validate) = [value_cur c]"
  by (simp add: validate_def Let_def)

subsection \<open>Which queued updates reach which slot\<close>

lemma error_flush:
  "\<forall>x. Set_error x \<notin> set es \<Longrightarrow> error (flush F c es) = error c"
proof (induction es arbitrary: c)
  case Nil
  show ?case by (simp add: flush_Nil)
next
  case (Cons e es)
  then show ?case by (cases e) (auto simp add: flush_Cons)
qed

lemma error_flush_cleared:
  "\<forall>x. Set_error x \<in> set es \<longrightarrow> x = Null \<Longrightarrow>
     error (flush F c es) = error c \<or> error (flush F c es) = Null"
proof (induction es arbitrary: c)
  case Nil
  show ?case by (simp add: flush_Nil)
next
  case (Cons e es)
  from Cons.prems have rest: "\<forall>x. Set_error x \<in> set es \<longrightarrow> x = Null"
    by simp
  have first: "error (apply_effect F c e) = error c \<or> error (apply_effect F c e) = Null"
  proof (cases e)
    case (Set_error a)
    from Cons.prems have "Set_error a \<in> set (e # es) \<longrightarrow> a = Null"
      by blast
    with Set_error have "a = Null"
      by simp
    with Set_error show ?thesis
      by simp
  qed simp_all
  from Cons.IH [OF rest, of "apply_effect F c e"] first show ?case
    by (auto simp add: flush_Cons)
qed

lemma savePoint_flush:
  "\<forall>x. Set_savePoint x \<notin> set es \<Longrightarrow> savePoint (flush F c es) = savePoint c"
proof (induction es arbitrary: c)
  case Nil
  show ?case by (simp add: flush_Nil)
next
  case (Cons e es)
  then show ?case by (cases e) (auto simp add: flush_Cons)
qed

lemma value_flush:
  "\<forall>x. Set_value x \<notin> set es \<Longrightarrow> value_cur (flush F c es) = value_cur c"
proof (induction es arbitrary: c)
  case Nil
  show ?case by (simp add: flush_Nil)
next
  case (Cons e es)
  then show ?case by (cases e) (auto simp add: flush_Cons)
qed

subsection \<open>Which operation calls which setter\<close>

lemma call_Set_error:
  "Set_error x \<in> set (call h c a) \<Longrightarrow> a = Validate \<or> a = Reset"
  by (cases a) (auto simp add: setValue_def commit_def)

lemma call_Set_error_not_Validate:
  "Set_error x \<in> set (call h c a) \<Longrightarrow> a \<noteq> Validate \<Longrightarrow> x = Null"
  by (cases a) (auto simp add: setValue_def commit_def reset_def)

lemma call_Set_savePoint:
  "Set_savePoint x \<in> set (call h c a) \<Longrightarrow> \<exists>s. a = Commit s"
  by (cases a) (auto simp add: setValue_def reset_def validate_def Let_def split: if_splits)

lemma call_Set_value:
  "Set_value x \<in> set (call h c a) \<Longrightarrow> a = Reset \<or> (\<exists>w. a = SetValue w)"
  by (cases a) (auto simp add: commit_def validate_def Let_def split: if_splits)

lemma error_act:
  "Validate \<notin> set ops \<Longrightarrow> Reset \<notin> set ops \<Longrightarrow> error (act F h c ops) = error c"
  unfolding act_def by (rule error_flush) (auto dest: call_Set_error)

lemma error_act_cleared:
  "Validate \<notin> set ops \<Longrightarrow>
     error (act F h c ops) = error c \<or> error (act F h c ops) = Null"
  unfolding act_def by (rule error_flush_cleared) (auto dest: call_Set_error_not_Validate)

lemma savePoint_act:
  "\<forall>s. Commit s \<notin> set ops \<Longrightarrow> savePoint (act F h c ops) = savePoint c"
  unfolding act_def by (rule savePoint_flush) (auto dest: call_Set_savePoint)

lemma value_act:
  "Reset \<notin> set ops \<Longrightarrow> \<forall>u. SetValue u \<notin> set ops \<Longrightarrow>
     value_cur (act F h c ops) = value_cur c"
  unfolding act_def by (rule value_flush) (auto dest: call_Set_value)

lemma error_run:
  "\<forall>b \<in> set batches. Validate \<notin> set b \<and> Reset \<notin> set b \<Longrightarrow>
     error (run F h c batches) = error c"
  by (induction batches arbitrary: c) (simp_all add: run_Nil run_Cons error_act)

lemma error_run_cleared:
  "\<forall>b \<in> set batches. Validate \<notin> set b \<Longrightarrow>
     error (run F h c batches) = error c \<or> error (run F h c batches) = Null"
proof (induction batches arbitrary: c)
  case Nil
  show ?case by (simp add: run_Nil)
next
  case (Cons b bs)
  from Cons.prems have "error (act F h c b) = error c \<or> error (act F h c b) = Null"
    by (simp add: error_act_cleared)
  moreover from Cons.prems have "\<forall>b \<in> set bs. Validate \<notin> set b"
    by simp
  from Cons.IH [OF this, of "act F h c b"]
  have "error (run F h (act F h c b) bs) = error (act F h c b)
      \<or> error (run F h (act F h c b) bs) = Null" .
  ultimately show ?case by (auto simp add: run_Cons)
qed

lemma savePoint_run:
  "\<forall>b \<in> set batches. \<forall>s. Commit s \<notin> set b \<Longrightarrow>
     savePoint (run F h c batches) = savePoint c"
  by (induction batches arbitrary: c) (simp_all add: run_Nil run_Cons savePoint_act)

lemma value_run:
  "\<forall>b \<in> set batches. Reset \<notin> set b \<and> (\<forall>u. SetValue u \<notin> set b) \<Longrightarrow>
     value_cur (run F h c batches) = value_cur c"
  by (induction batches arbitrary: c) (simp_all add: run_Nil run_Cons value_act)

section \<open>The repository's tests, run on the model\<close>

text \<open>
  \<^verbatim>\<open>test/index.test.ts\<close>: the initial state, a validation that fails with the static or
  with a dynamic hint, a value set and validated in two handlers, and the reset test,
  whose first handler sets the value and validates in one go (the validator then sees
  the value of the render, not the one just set). The tests use no function value, so
  they come out the same under every function table \<open>F\<close>.
\<close>

lemma test_initial_state:
  "value_cur (create F (hook_of (Str ''Init value'') (Str []) (Bool True))) = Str ''Init value''
   \<and> error (create F (hook_of (Str []) (Str ''Error hint'') (Bool False))) = Null"
  by (simp add: create_def useInputValidation_def hook_of_def)

lemma test_validate_sets_error:
  "error (act F (hook_of (Str []) (Str ''Error hint'') (Bool False))
      (create F (hook_of (Str []) (Str ''Error hint'') (Bool False))) [Validate])
     = Str ''Error hint''
   \<and> error (act F (hook_of (Str []) (Str ''Error hint'') (Str ''Dynamic information''))
      (create F (hook_of (Str []) (Str ''Error hint'') (Str ''Dynamic information'')))
      [Validate])
     = Str ''Dynamic information''"
  by (simp add: create_def useInputValidation_def hook_of_def act_single validate_def
      flush_Cons flush_Nil)

lemma test_setValue_update_function:
  "value_cur (act (\<lambda>k x. Str ''Test value'') (hook_of (Str ''Initial'') (Str ''Error hint'') (Bool False))
      (create (\<lambda>k x. Str ''Test value'') (hook_of (Str ''Initial'') (Str ''Error hint'') (Bool False)))
      [SetValue (Fun 0)]) = Str ''Test value''"
  by (simp add: create_def useInputValidation_def hook_of_def act_single setValue_def
      flush_Cons flush_Nil)

lemma test_validate_uses_current_value:
  "error (run F \<lparr>initialValue = Str [], staticHint = Str ''Error hint'',
        validator = (\<lambda>v. Bool (v = Str ''Test value''))\<rparr>
      (cell_of (Str []) Null (Str []))
      [[SetValue (Str ''Test value'')], [Validate]]) = Null"
  by (simp add: cell_of_def run_Cons run_Nil act_single setValue_def validate_def
      flush_Cons flush_Nil)

lemma test_reset:
  "run F (hook_of (Str ''Init'') (Str ''Error hint'') (Bool False))
      (create F (hook_of (Str ''Init'') (Str ''Error hint'') (Bool False)))
      [[SetValue (Str ''Changed''), Validate]]
     = cell_of (Str ''Changed'') (Str ''Error hint'') (Str ''Init'')
   \<and> run F (hook_of (Str ''Init'') (Str ''Error hint'') (Bool False))
      (create F (hook_of (Str ''Init'') (Str ''Error hint'') (Bool False)))
      [[SetValue (Str ''Changed''), Validate], [Reset]]
     = cell_of (Str ''Init'') Null (Str ''Init'')"
  by (simp add: create_def useInputValidation_def hook_of_def cell_of_def run_Cons run_Nil
      act_def setValue_def validate_def reset_def flush_Cons flush_Nil)

lemma test_commit:
  "value_cur (run F (hook_of (Str ''Init'') (Str ''Error hint'') (Bool False))
      (create F (hook_of (Str ''Init'') (Str ''Error hint'') (Bool False)))
      [[SetValue (Str ''Changed''), Validate], [Commit None], [Reset]])
     = Str ''Changed''
   \<and> value_cur (run F (hook_of (Str ''Init'') (Str ''Error hint'') (Bool False))
      (create F (hook_of (Str ''Init'') (Str ''Error hint'') (Bool False)))
      [[Commit (Some (Str ''Changed''))], [Reset]])
     = Str ''Changed''"
  by (simp add: create_def useInputValidation_def hook_of_def run_Cons run_Nil
      act_def setValue_def validate_def reset_def commit_def flush_Cons flush_Nil)

text \<open>
  The hazard of section 5 of the specification, and of the README's warning: calls in
  one event handler read the render's snapshot. A validate after a setValue validates
  the old value, and a reset after a commit restores the old save point.
\<close>

lemma same_handler_reads_snapshot:
  "validator_calls (concat (map (call h c) [SetValue v, Validate])) = [value_cur c]
   \<and> value_cur (act F h c [Commit (Some s), Reset])
       = basicStateReducer F (value_cur c) (savePoint c)"
  by (simp add: act_def setValue_def validate_def Let_def commit_def reset_def
      flush_Cons flush_Nil)

section \<open>validate\<close>




text \<open>
  C10. If the validator returns null (a result that is not a boolean), validate returns
  false and sets the error to null: the cell then shows no error, as after a
  successful validation, although the call reported the value as invalid.
\<close>

theorem validate_null_result:
  "validator h (value_cur c) = Null \<Longrightarrow>
     fst (validate h c) = False \<and> act F h c [Validate] = c\<lparr>error := Null\<rparr>
     \<and> error (act F h c [Validate]) = Null"
  by (simp add: act_single validate_def Let_def flush_Cons flush_Nil)

theorem validate_null_result_witness:
  "validator (hook_of (Str []) (Str ''Hint'') Null)
      (value_cur (cell_of (Str []) (Str ''Old'') (Str []))) = Null
   \<and> fst (validate (hook_of (Str []) (Str ''Hint'') Null)
      (cell_of (Str []) (Str ''Old'') (Str []))) = False
   \<and> error (act example_functions (hook_of (Str []) (Str ''Hint'') Null)
      (cell_of (Str []) (Str ''Old'') (Str [])) [Validate]) = Null"
proof -
  have r: "validator (hook_of (Str []) (Str ''Hint'') Null)
      (value_cur (cell_of (Str []) (Str ''Old'') (Str []))) = Null"
    by (simp add: hook_of_def)
  from r validate_null_result [OF r, of example_functions] show ?thesis by simp
qed

section \<open>reset\<close>







section \<open>commit\<close>

text \<open>
  What commit does with a supplied state that is neither undefined, null nor a
  function, and without an argument when the value is not a function: the save point
  becomes that state, or the current value; value and error stay; a reset in a later
  event handler, with no commit in the handlers between, restores the committed value.
\<close>

lemma reset_last_in_handler:
  "\<forall>k. savePoint c \<noteq> Fun k \<Longrightarrow> value_cur (act F h c (ops @ [Reset])) = savePoint c"
  by (simp add: act_append reset_def flush_Cons flush_Nil basicStateReducer_plain)

lemma commit_supplied_state:
  assumes "s \<noteq> Undefined" and "s \<noteq> Null" and "\<forall>k. s \<noteq> Fun k"
  shows "act F h c [Commit (Some s)] = c\<lparr>savePoint := s\<rparr>"
  using assms by (cases s) (simp_all add: act_single commit_def flush_Cons flush_Nil)

lemma commit_current_value:
  assumes "\<forall>k. value_cur c \<noteq> Fun k"
  shows "act F h c [Commit None] = c\<lparr>savePoint := value_cur c\<rparr>"
  using assms
  by (simp add: act_single commit_def flush_Cons flush_Nil basicStateReducer_plain)

lemma commit_then_later_reset:
  assumes "s \<noteq> Undefined" and "s \<noteq> Null" and "\<forall>k. s \<noteq> Fun k"
    and "\<forall>b \<in> set batches. \<forall>x. Commit x \<notin> set b"
  shows "value_cur (run F h c ([Commit (Some s)] # batches @ [ops @ [Reset]])) = s"
proof -
  have "savePoint (run F h (act F h c [Commit (Some s)]) batches) = s"
    using assms by (simp add: savePoint_run commit_supplied_state)
  then show ?thesis
    using assms(3) by (simp add: run_Cons run_append run_Nil reset_last_in_handler)
qed

text \<open>
  C3. The claim's first case, at a supplied null: with the value \<^verbatim>\<open>"Changed"\<close> and the
  save point \<^verbatim>\<open>"Init"\<close>, \<^verbatim>\<open>commit(null)\<close> makes \<^verbatim>\<open>"Changed"\<close> the save point, not null, and
  the reset after it restores \<^verbatim>\<open>"Changed"\<close>. The doc comment of commit names only an
  undefined argument as the case in which the current value is used.
\<close>

theorem commit_null_keeps_value:
  "savePoint (act example_functions (hook_of (Str ''Init'') (Str ''Hint'') (Bool False))
       (cell_of (Str ''Changed'') Null (Str ''Init'')) [Commit (Some Null)]) = Str ''Changed''
   \<and> savePoint (act example_functions (hook_of (Str ''Init'') (Str ''Hint'') (Bool False))
       (cell_of (Str ''Changed'') Null (Str ''Init'')) [Commit (Some Null)]) \<noteq> Null
   \<and> value_cur (run example_functions (hook_of (Str ''Init'') (Str ''Hint'') (Bool False))
       (cell_of (Str ''Changed'') Null (Str ''Init'')) [[Commit (Some Null)], [Reset]])
     = Str ''Changed''"
  by (simp add: run_Cons run_Nil act_single commit_def reset_def flush_Cons flush_Nil
      cell_of_def)




section \<open>Construction\<close>




section \<open>setValue\<close>

text \<open>
  C5. For every cell and every update, setValue changes the value only: error and save
  point are as before, also when the update is applied after other queued updates, and
  the validator is not called.
\<close>

theorem setValue_frame:
  "act F h c [SetValue u] = c\<lparr>value_cur := basicStateReducer F (value_cur c) u\<rparr>
   \<and> error (act F h c [SetValue u]) = error c
   \<and> savePoint (act F h c [SetValue u]) = savePoint c
   \<and> validator_calls (call h c (SetValue u)) = []
   \<and> error (flush F c (es @ setValue u)) = error (flush F c es)
   \<and> savePoint (flush F c (es @ setValue u)) = savePoint (flush F c es)"
  by (simp add: act_single setValue_def flush_append flush_Cons flush_Nil)

text \<open>
  C6. For every cell and every function \<open>u\<close>, setValue(u) replaces the value by \<open>u\<close>
  applied to the value the slot holds when the update is applied (after the updates
  queued before it); an argument that is not a function replaces the value directly.
  From the value \<^verbatim>\<open>"Initial"\<close>, the updater \<^verbatim>\<open>prev => prev + "X"\<close> gives \<^verbatim>\<open>"InitialX"\<close>.
\<close>

theorem setValue_updater:
  "value_cur (act (\<lambda>j. u) h c [SetValue (Fun k)]) = u (value_cur c)
   \<and> value_cur (act F h c [SetValue (Fun k)]) = F k (value_cur c)
   \<and> value_cur (flush F c (es @ setValue (Fun k))) = F k (value_cur (flush F c es))
   \<and> ((\<forall>j. v \<noteq> Fun j) \<longrightarrow>
       value_cur (act F h c [SetValue v]) = v
       \<and> value_cur (flush F c (es @ setValue v)) = v)
   \<and> value_cur (act example_functions (hook_of (Str ''Initial'') hint (Bool False))
        (create example_functions (hook_of (Str ''Initial'') hint (Bool False)))
        [SetValue (Fun 0)]) = Str ''InitialX''"
  by (simp add: act_single setValue_def flush_append flush_Cons flush_Nil create_def
      useInputValidation_def hook_of_def example_functions_def basicStateReducer_plain)

theorem setValue_updater_witness:
  "value_cur (act example_functions (hook_of (Str []) (Str ''Error hint'') (Bool False))
      (cell_of (Str []) Null (Str [])) [SetValue (Str ''Test value'')]) = Str ''Test value''
   \<and> value_cur (flush example_functions (cell_of (Str []) Null (Str []))
      (setValue (Fun 0) @ setValue (Str ''Test value''))) = Str ''Test value''"
  using setValue_updater [where v = "Str ''Test value''" and F = example_functions
      and h = "hook_of (Str []) (Str ''Error hint'') (Bool False)"
      and c = "cell_of (Str []) Null (Str [])" and es = "setValue (Fun 0)"]
  by simp

section \<open>Who writes which slot\<close>

text \<open>
  C7, as amended. Over every sequence of event handlers: the error changes only where
  validate or reset is called, and where validate is not called it can only stay as it
  is or become null (reset clears it; setValue and commit never touch it); the save
  point changes only where commit is called; the value changes only where setValue or
  reset is called.
\<close>

theorem sole_writers:
  "((\<forall>b \<in> set batches. Validate \<notin> set b \<and> Reset \<notin> set b) \<longrightarrow>
       error (run F h c batches) = error c)
   \<and> ((\<forall>b \<in> set batches. Validate \<notin> set b) \<longrightarrow>
       error (run F h c batches) = error c \<or> error (run F h c batches) = Null)
   \<and> ((\<forall>b \<in> set batches. \<forall>s. Commit s \<notin> set b) \<longrightarrow>
       savePoint (run F h c batches) = savePoint c)
   \<and> ((\<forall>b \<in> set batches. Reset \<notin> set b \<and> (\<forall>u. SetValue u \<notin> set b)) \<longrightarrow>
       value_cur (run F h c batches) = value_cur c)"
  using error_run [of batches F h c] error_run_cleared [of batches F h c]
    savePoint_run [of batches F h c] value_run [of batches F h c]
  by blast

text \<open>
  Four runs from a cell with the error \<^verbatim>\<open>"Hint"\<close>: without validate and reset the error
  stays; with a reset and no validate it becomes null; without commit the save point
  stays; without setValue and reset the value stays.
\<close>

theorem sole_writers_witness:
  "error (run example_functions (hook_of (Str ''Init'') (Str ''Hint'') (Bool False))
       (cell_of (Str ''Init'') (Str ''Hint'') (Str ''Init''))
       [[SetValue (Str ''a''), Commit None], [SetValue (Fun 0)]])
     = Str ''Hint''
   \<and> error (run example_functions (hook_of (Str ''Init'') (Str ''Hint'') (Bool False))
       (cell_of (Str ''Init'') (Str ''Hint'') (Str ''Init''))
       [[SetValue (Str ''a'')], [Reset]]) = Null
   \<and> savePoint (run example_functions (hook_of (Str ''Init'') (Str ''Hint'') (Bool False))
       (cell_of (Str ''Init'') (Str ''Hint'') (Str ''Init''))
       [[SetValue (Str ''a''), Validate], [Reset]]) = Str ''Init''
   \<and> value_cur (run example_functions (hook_of (Str ''Init'') (Str ''Hint'') (Bool False))
       (cell_of (Str ''Init'') (Str ''Hint'') (Str ''Init''))
       [[Validate, Commit (Some (Str ''z''))], [Validate]]) = Str ''Init''"
  using
    sole_writers [of
      "[[SetValue (Str ''a''), Commit None], [SetValue (Fun 0)]]"
      example_functions
      "hook_of (Str ''Init'') (Str ''Hint'') (Bool False)"
      "cell_of (Str ''Init'') (Str ''Hint'') (Str ''Init'')"]
    sole_writers [of "[[SetValue (Str ''a'')], [Reset]]"
      example_functions
      "hook_of (Str ''Init'') (Str ''Hint'') (Bool False)"
      "cell_of (Str ''Init'') (Str ''Hint'') (Str ''Init'')"]
    sole_writers [of "[[SetValue (Str ''a''), Validate], [Reset]]"
      example_functions
      "hook_of (Str ''Init'') (Str ''Hint'') (Bool False)"
      "cell_of (Str ''Init'') (Str ''Hint'') (Str ''Init'')"]
    sole_writers [of "[[Validate, Commit (Some (Str ''z''))], [Validate]]"
      example_functions
      "hook_of (Str ''Init'') (Str ''Hint'') (Bool False)"
      "cell_of (Str ''Init'') (Str ''Hint'') (Str ''Init'')"]
  by (simp add: cell_of_def run_Cons run_Nil act_def flush_Cons flush_Nil reset_def
      setValue_def)

text \<open>
  C7 as it was stated fails for reset, which writes the error too: from a cell with
  the error \<^verbatim>\<open>"Hint"\<close>, a reset alone changes the error.
\<close>

theorem reset_writes_error_counterexample:
  "error (act example_functions (hook_of (Str ''Init'') (Str ''Hint'') (Bool False))
       (cell_of (Str ''Changed'') (Str ''Hint'') (Str ''Init'')) [Reset])
     \<noteq> error (cell_of (Str ''Changed'') (Str ''Hint'') (Str ''Init''))"
  by (simp add: act_single reset_def flush_Cons flush_Nil cell_of_def)

end
